theory Spec2Isabelle
  imports Complex_Main "HOL-Library.Sublist"
begin

section \<open>JavaScript values\<close>

text \<open>
  The bot handles values decoded from JSON (the model's answer, the backend's replies, the
  token file). They are modelled by a datatype of JavaScript values. Strings are byte
  strings (UTF-8). A number is \<open>NaN\<close>, an infinity, or a finite double given by its exact
  value; the only arithmetic the code does on numbers (negation, absolute value, comparison
  with 0) is exact on doubles. The sign of zero is not modelled.
\<close>

datatype jsnum = NaN | NegInf | PosInf | Fin rat

datatype jsval =
    JUndefined
  | JNull
  | JBool bool
  | JNum jsnum
  | JStr string
  | JArr "jsval list"
  | JObj "(string \<times> jsval) list"

datatype exn = TypeError | RangeError | Error string

text \<open>Truthiness (\<open>ToBoolean\<close>), as used by \<open>!x\<close>, \<open>x || y\<close> and \<open>x && y\<close>.\<close>

fun truthy :: "jsval \<Rightarrow> bool" where
  "truthy JUndefined = False"
| "truthy JNull = False"
| "truthy (JBool b) = b"
| "truthy (JNum n) = (n \<noteq> NaN \<and> n \<noteq> Fin 0)"
| "truthy (JStr s) = (s \<noteq> [])"
| "truthy (JArr xs) = True"
| "truthy (JObj ps) = True"

text \<open>
  Strict equality \<open>===\<close>. Two objects or arrays are equal only when they are the same
  reference; every comparison in the modelled code is between values that were decoded
  separately, so objects and arrays always compare unequal.
\<close>

fun strict_eq :: "jsval \<Rightarrow> jsval \<Rightarrow> bool" where
  "strict_eq JUndefined JUndefined = True"
| "strict_eq JNull JNull = True"
| "strict_eq (JBool a) (JBool b) = (a = b)"
| "strict_eq (JNum a) (JNum b) = (a \<noteq> NaN \<and> a = b)"
| "strict_eq (JStr a) (JStr b) = (a = b)"
| "strict_eq _ _ = False"

text \<open>
  Property read \<open>v.k\<close> for the property names the code reads from decoded values (none
  of them is a built-in property of a string, number, boolean or array): a \<open>TypeError\<close>
  on \<open>null\<close> and \<open>undefined\<close>, the stored value on an object, \<open>undefined\<close> otherwise.
\<close>

fun get_prop :: "jsval \<Rightarrow> string \<Rightarrow> exn + jsval" where
  "get_prop JUndefined k = Inl TypeError"
| "get_prop JNull k = Inl TypeError"
| "get_prop (JObj ps) k = (case map_of ps k of None \<Rightarrow> Inr JUndefined | Some v \<Rightarrow> Inr v)"
| "get_prop _ k = Inr JUndefined"

text \<open>The same read on a value already known not to be \<open>null\<close> or \<open>undefined\<close>.\<close>

definition jget :: "jsval \<Rightarrow> string \<Rightarrow> jsval" where
  "jget v k = (case get_prop v k of Inl _ \<Rightarrow> JUndefined | Inr x \<Rightarrow> x)"

subsection \<open>Numbers\<close>

fun neg_num :: "jsnum \<Rightarrow> jsnum" where
  "neg_num NaN = NaN"
| "neg_num NegInf = PosInf"
| "neg_num PosInf = NegInf"
| "neg_num (Fin r) = Fin (- r)"

fun abs_num :: "jsnum \<Rightarrow> jsnum" where
  "abs_num NaN = NaN"
| "abs_num NegInf = PosInf"
| "abs_num PosInf = PosInf"
| "abs_num (Fin r) = Fin \<bar>r\<bar>"

text \<open>\<open>n < 0\<close> on numbers: false on \<open>NaN\<close>.\<close>

fun num_negative :: "jsnum \<Rightarrow> bool" where
  "num_negative NaN = False"
| "num_negative NegInf = True"
| "num_negative PosInf = False"
| "num_negative (Fin r) = (r < 0)"

subsection \<open>The runtime\<close>

text \<open>
  What the built-in functions of the JavaScript runtime compute on strings, numbers and
  dates is not part of the repository. These functions are parameters of the model:
  how a number prints (\<open>Number::toString\<close>), what \<open>parseFloat\<close> and \<open>ToNumber\<close> read
  from a string, what \<open>toUpperCase\<close> makes of a string that has characters outside
  ASCII, the time value of \<open>new Date(v)\<close> for a primitive \<open>v\<close> (\<open>None\<close> for an invalid
  date), and the localised renderings of dates and numbers.
\<close>

record jslib =
  numberToString :: "jsnum \<Rightarrow> string"
  parseFloat_str :: "string \<Rightarrow> jsnum"
  toNumber_str :: "string \<Rightarrow> jsnum"
  upper_wide :: "string \<Rightarrow> string"
  dateParse :: "jsval \<Rightarrow> int option"
  toLocaleDateString :: "int option \<Rightarrow> string"   \<comment> \<open>\<open>'es-AR'\<close>, two-digit day and month\<close>
  toLocaleString :: "jsnum \<Rightarrow> string"             \<comment> \<open>\<open>'es-AR'\<close>\<close>
  toISOString :: "int \<Rightarrow> string"

text \<open>
  \<open>String(v)\<close>, as a template literal applies it. A decoded object prints as
  \<open>[object Object]\<close> unless it has a property \<open>toString\<close> of its own: that property is
  no function, so the conversion throws. An array prints its elements separated by commas,
  \<open>null\<close> and \<open>undefined\<close> as nothing.
\<close>

fun to_string :: "jslib \<Rightarrow> jsval \<Rightarrow> exn + string"
  and elems_string :: "jslib \<Rightarrow> jsval list \<Rightarrow> exn + string" where
  "to_string L JUndefined = Inr ''undefined''"
| "to_string L JNull = Inr ''null''"
| "to_string L (JBool b) = Inr (if b then ''true'' else ''false'')"
| "to_string L (JNum n) = Inr (numberToString L n)"
| "to_string L (JStr s) = Inr s"
| "to_string L (JObj ps) =
     (if map_of ps ''toString'' = None then Inr ''[object Object]'' else Inl TypeError)"
| "to_string L (JArr xs) = elems_string L xs"
| "elems_string L [] = Inr []"
| "elems_string L (x # xs) =
     (case (if x = JNull \<or> x = JUndefined then Inr [] else to_string L x) of
        Inl e \<Rightarrow> Inl e
      | Inr a \<Rightarrow>
          if xs = [] then Inr a
          else (case elems_string L xs of
                  Inl e \<Rightarrow> Inl e
                | Inr b \<Rightarrow> Inr (a @ '','' @ b)))"

text \<open>
  \<open>parseFloat(v)\<close> converts \<open>v\<close> to a string and reads that. A number prints as a
  literal that reads back as the same number; \<open>undefined\<close>, \<open>null\<close> and the booleans
  print as words that are no number.
\<close>

fun parseFloat :: "jslib \<Rightarrow> jsval \<Rightarrow> exn + jsnum" where
  "parseFloat L (JNum n) = Inr n"
| "parseFloat L (JStr s) = Inr (parseFloat_str L s)"
| "parseFloat L JUndefined = Inr NaN"
| "parseFloat L JNull = Inr NaN"
| "parseFloat L (JBool b) = Inr NaN"
| "parseFloat L v =
     (case to_string L v of Inl e \<Rightarrow> Inl e | Inr s \<Rightarrow> Inr (parseFloat_str L s))"

text \<open>\<open>ToNumber(v)\<close>, as \<open>Math.abs\<close> and \<open>>\<close> apply it.\<close>

fun toNumber :: "jslib \<Rightarrow> jsval \<Rightarrow> exn + jsnum" where
  "toNumber L JUndefined = Inr NaN"
| "toNumber L JNull = Inr (Fin 0)"
| "toNumber L (JBool b) = Inr (if b then Fin 1 else Fin 0)"
| "toNumber L (JNum n) = Inr n"
| "toNumber L (JStr s) = Inr (toNumber_str L s)"
| "toNumber L v =
     (case to_string L v of Inl e \<Rightarrow> Inl e | Inr s \<Rightarrow> Inr (toNumber_str L s))"

text \<open>
  \<open>s.toUpperCase()\<close>. On a string of ASCII characters it maps the letters a to z to A to
  Z and leaves the rest; any other string is left to the runtime.
\<close>

definition is_ascii :: "char \<Rightarrow> bool" where
  "is_ascii c = (of_char c < (128::nat))"

fun index_of :: "char \<Rightarrow> string \<Rightarrow> nat" where
  "index_of c [] = 0"
| "index_of c (d # ds) = (if c = d then 0 else Suc (index_of c ds))"

definition upper_char :: "char \<Rightarrow> char" where
  "upper_char c =
     (if c \<in> set ''abcdefghijklmnopqrstuvwxyz''
      then ''ABCDEFGHIJKLMNOPQRSTUVWXYZ'' ! index_of c ''abcdefghijklmnopqrstuvwxyz''
      else c)"

definition toUpperCase :: "jslib \<Rightarrow> string \<Rightarrow> string" where
  "toUpperCase L s = (if list_all is_ascii s then map upper_char s else upper_wide L s)"

section \<open>Effects\<close>

text \<open>
  One run of a handler talks to the Telegram client, the completion API, the backend and
  the token file. The answers of the outside world to one run are collected in an
  environment; what the run does is recorded, in order, in a trace of events, next to the
  state of the token file. Calls to the Telegram client are taken to resolve; every other
  call can fail in each way the code distinguishes.
\<close>

datatype 'a outcome =
    NetworkError   \<comment> \<open>\<open>fetch\<close> rejects\<close>
  | HttpError      \<comment> \<open>a response with \<open>response.ok\<close> false\<close>
  | Malformed      \<comment> \<open>a response whose body cannot be decoded as the code expects\<close>
  | Ok 'a          \<comment> \<open>a response with \<open>response.ok\<close> true and its decoded body\<close>

datatype post_outcome = PostThrows | PostStatus bool

text \<open>
  The token file: absent, present but unreadable, readable but not JSON, or holding a JSON
  value.
\<close>

datatype token_file = Missing | Unreadable | Invalid_json | Parsed jsval

datatype write_outcome =
    WriteOk
  | WriteFails token_file   \<comment> \<open>\<open>mkdir\<close> or \<open>writeFile\<close> rejects, leaving the file in this state\<close>

record payload =
  p_description :: jsval
  p_amount :: jsnum
  p_category :: jsval
  p_type :: string
  p_date :: string
  p_currency :: string
  p_user_email :: jsval
  p_user_id :: jsval

text \<open>The texts the bot sends to the chat; the fixed ones are named after their content.\<close>

datatype reply =
    Help                 \<comment> \<open>index.js:185\<close>
  | Thinking             \<comment> \<open>index.js:202\<close>
  | AnalysisDone         \<comment> \<open>index.js:206\<close>
  | CouldNotUnderstand   \<comment> \<open>index.js:209\<close>
  | Confirm string string string string
      \<comment> \<open>index.js:213: description, amount, upper-cased currency, category, as printed\<close>
  | Registered           \<comment> \<open>index.js:231\<close>
  | Oops                 \<comment> \<open>index.js:235\<close>
  | Searching            \<comment> \<open>resumen.js:548\<close>
  | GastosFailed         \<comment> \<open>resumen.js:580\<close>
  | ResumenThinking      \<comment> \<open>resumen.js:151\<close>
  | ResumenFailed        \<comment> \<open>resumen.js:182\<close>
  | Text string          \<comment> \<open>a computed text\<close>

datatype event =
    ConsoleLog string               \<comment> \<open>\<open>console.log\<close>, tagged with the function that logs\<close>
  | ConsoleError string             \<comment> \<open>\<open>console.error\<close>, tagged likewise\<close>
  | SendMessage reply               \<comment> \<open>\<open>bot.sendMessage\<close>\<close>
  | EditMessage reply               \<comment> \<open>\<open>bot.editMessageText\<close>\<close>
  | LlmRequest string               \<comment> \<open>a call of the completion API with this user content\<close>
  | RefreshRequest jsval            \<comment> \<open>the token-refresh call with this refresh token\<close>
  | TokenWrite jsval                \<comment> \<open>a call of \<open>writeRefreshToken\<close>\<close>
  | TransactionPost jsval payload   \<comment> \<open>the POST that creates a transaction\<close>
  | BackendRpc string jsval         \<comment> \<open>a transaction RPC, with the access token\<close>

record env =
  llm_expense :: "string \<Rightarrow> jsval outcome"
    \<comment> \<open>the expense-parsing completion: the JSON decoded from the model's cleaned text\<close>
  llm_text :: "string \<Rightarrow> string outcome"
    \<comment> \<open>the narrative completion: the trimmed text of the model's answer\<close>
  refresh_reply :: "jsval \<Rightarrow> jsval outcome"
  post_reply :: post_outcome
  rpc_reply :: "jsval outcome"
  write_result :: write_outcome
  now :: string

record config =
  seed :: string        \<comment> \<open>\<open>GASTI_INITIAL_REFRESH_TOKEN\<close>\<close>
  user_email :: jsval   \<comment> \<open>\<open>GASTI_USER_EMAIL\<close>\<close>
  user_id :: jsval      \<comment> \<open>\<open>GASTI_USER_ID\<close>\<close>

record world =
  token_file :: token_file
  trace :: "event list"

type_synonym 'a io = "world \<Rightarrow> (exn + 'a) \<times> world"

definition ret :: "'a \<Rightarrow> 'a io" where
  "ret x w = (Inr x, w)"

definition throw :: "exn \<Rightarrow> 'a io" where
  "throw e w = (Inl e, w)"

definition bind :: "'a io \<Rightarrow> ('a \<Rightarrow> 'b io) \<Rightarrow> 'b io" where
  "bind m f w = (case m w of (Inl e, w') \<Rightarrow> (Inl e, w') | (Inr x, w') \<Rightarrow> f x w')"

definition catch :: "'a io \<Rightarrow> (exn \<Rightarrow> 'a io) \<Rightarrow> 'a io" where
  "catch m h w = (case m w of (Inl e, w') \<Rightarrow> h e w' | (Inr x, w') \<Rightarrow> (Inr x, w'))"

definition emit :: "event \<Rightarrow> unit io" where
  "emit e w = (Inr (), w\<lparr>trace := trace w @ [e]\<rparr>)"

definition lift :: "exn + 'a \<Rightarrow> 'a io" where
  "lift r w = (r, w)"

section \<open>Token store (index.js:37-59)\<close>

definition readRefreshToken :: "config \<Rightarrow> jsval io" where
  "readRefreshToken cfg w =
     (case token_file w of
        Parsed v \<Rightarrow>
          bind (emit (ConsoleLog ''readRefreshToken''))
            (\<lambda>_. catch (lift (get_prop v ''refreshToken''))
                    (\<lambda>_. bind (emit (ConsoleLog ''readRefreshToken''))
                            (\<lambda>_. ret (JStr (seed cfg))))) w
      | _ \<Rightarrow>
          bind (emit (ConsoleLog ''readRefreshToken''))
            (\<lambda>_. ret (JStr (seed cfg))) w)"

definition writeRefreshToken :: "env \<Rightarrow> jsval \<Rightarrow> unit io" where
  "writeRefreshToken en newToken w =
     (let w1 = w\<lparr>trace := trace w @ [TokenWrite newToken]\<rparr>
      in case write_result en of
           WriteOk \<Rightarrow>
             emit (ConsoleLog ''writeRefreshToken'')
               (w1\<lparr>token_file :=
                     Parsed (JObj [(''refreshToken'', newToken),
                                   (''lastUpdated'', JStr (now en))])\<rparr>)
         | WriteFails f \<Rightarrow>
             emit (ConsoleError ''writeRefreshToken'') (w1\<lparr>token_file := f\<rparr>))"

section \<open>Backend calls (index.js:65-119)\<close>

definition getNewAccessToken :: "env \<Rightarrow> jsval \<Rightarrow> jsval io" where
  "getNewAccessToken en refreshToken =
     bind (emit (ConsoleLog ''getNewAccessToken''))
       (\<lambda>_. bind (emit (RefreshRequest refreshToken))
       (\<lambda>_. case refresh_reply en refreshToken of
               Ok data \<Rightarrow>
                 (case get_prop data ''access_token'' of
                    Inl _ \<Rightarrow> bind (emit (ConsoleError ''getNewAccessToken'')) (\<lambda>_. ret JNull)
                  | Inr a \<Rightarrow>
                      ret (JObj [(''accessToken'', a),
                                 (''newRefreshToken'', jget data ''refresh_token'')]))
             | HttpError \<Rightarrow>
                 bind (emit (ConsoleError ''getNewAccessToken''))
                   (\<lambda>_. bind (emit (ConsoleError ''getNewAccessToken'')) (\<lambda>_. ret JNull))
             | _ \<Rightarrow> bind (emit (ConsoleError ''getNewAccessToken'')) (\<lambda>_. ret JNull)))"

text \<open>\<open>(c || 'USD').toUpperCase()\<close>: a \<open>TypeError\<close> when \<open>c\<close> is truthy and not a string.\<close>

definition upper_currency :: "jslib \<Rightarrow> jsval \<Rightarrow> exn + string" where
  "upper_currency L c =
     (if truthy c then (case c of JStr s \<Rightarrow> Inr (toUpperCase L s) | _ \<Rightarrow> Inl TypeError)
      else Inr (toUpperCase L ''USD''))"

definition transactionPayload :: "jslib \<Rightarrow> env \<Rightarrow> config \<Rightarrow> jsval \<Rightarrow> exn + payload" where
  "transactionPayload L en cfg expenseData =
     (case get_prop expenseData ''description'' of
        Inl e \<Rightarrow> Inl e
      | Inr d \<Rightarrow>
          (case parseFloat L (jget expenseData ''amount'') of
             Inl e \<Rightarrow> Inl e
           | Inr a \<Rightarrow>
               (case upper_currency L (jget expenseData ''currency'') of
                  Inl e \<Rightarrow> Inl e
                | Inr cur \<Rightarrow>
                    Inr \<lparr> p_description = d,
                          p_amount = neg_num (abs_num a),
                          p_category = jget expenseData ''category'',
                          p_type = ''expense'',
                          p_date = now en,
                          p_currency = cur,
                          p_user_email = user_email cfg,
                          p_user_id = user_id cfg \<rparr>)))"

definition sendTransaction :: "jslib \<Rightarrow> env \<Rightarrow> config \<Rightarrow> jsval \<Rightarrow> jsval \<Rightarrow> bool io" where
  "sendTransaction L en cfg accessToken expenseData =
     bind (emit (ConsoleLog ''sendTransaction''))
       (\<lambda>_. bind (lift (transactionPayload L en cfg expenseData))
       (\<lambda>p. bind (emit (TransactionPost accessToken p))
       (\<lambda>_. case post_reply en of
               PostStatus True \<Rightarrow>
                 bind (emit (ConsoleLog ''sendTransaction'')) (\<lambda>_. ret True)
             | _ \<Rightarrow> bind (emit (ConsoleError ''sendTransaction'')) (\<lambda>_. ret False))))"

section \<open>Expense parsing (index.js:143-165)\<close>

definition parseExpenseWithAI :: "env \<Rightarrow> string \<Rightarrow> jsval io" where
  "parseExpenseWithAI en text =
     bind (emit (ConsoleLog ''parseExpenseWithAI''))
       (\<lambda>_. bind (emit (LlmRequest text))
       (\<lambda>_. case llm_expense en text of
               Ok parsedContent \<Rightarrow>
                 bind (emit (ConsoleLog ''parseExpenseWithAI''))
                   (\<lambda>_. case get_prop parsedContent ''error'' of
                           Inl _ \<Rightarrow>
                             bind (emit (ConsoleError ''parseExpenseWithAI'')) (\<lambda>_. ret JNull)
                         | Inr er \<Rightarrow>
                             if truthy er
                             then bind (emit (ConsoleLog ''parseExpenseWithAI'')) (\<lambda>_. ret JNull)
                             else ret parsedContent)
             | _ \<Rightarrow> bind (emit (ConsoleError ''parseExpenseWithAI'')) (\<lambda>_. ret JNull)))"

text \<open>
  The block every command repeats (index.js:216-224, resumen.js:154-163 and 551-560):
  read the stored refresh token, exchange it, fail when no access token came back, and
  store the returned refresh token when there is one and it differs from the one read. It
  yields the access token.
\<close>

definition refresh_and_store :: "env \<Rightarrow> config \<Rightarrow> string \<Rightarrow> jsval io" where
  "refresh_and_store en cfg failure =
     bind (readRefreshToken cfg)
       (\<lambda>currentRefreshToken. bind (getNewAccessToken en currentRefreshToken)
       (\<lambda>tokenData.
          if \<not> truthy tokenData \<or> \<not> truthy (jget tokenData ''accessToken'')
          then throw (Error failure)
          else
            bind (if truthy (jget tokenData ''newRefreshToken'')
                     \<and> \<not> strict_eq (jget tokenData ''newRefreshToken'') currentRefreshToken
                  then writeRefreshToken en (jget tokenData ''newRefreshToken'')
                  else ret ())
              (\<lambda>_. ret (jget tokenData ''accessToken''))))"

section \<open>The expense recorder (index.js:199-232)\<close>

text \<open>
  The confirmation of index.js:213, a template over the description, the amount, the
  upper-cased currency and the category; printing any of them can throw.
\<close>

definition confirmation :: "jslib \<Rightarrow> jsval \<Rightarrow> exn + reply" where
  "confirmation L expense =
     (case to_string L (jget expense ''description'') of
        Inl e \<Rightarrow> Inl e
      | Inr d \<Rightarrow>
          (case to_string L (jget expense ''amount'') of
             Inl e \<Rightarrow> Inl e
           | Inr a \<Rightarrow>
               (case upper_currency L (jget expense ''currency'') of
                  Inl e \<Rightarrow> Inl e
                | Inr cur \<Rightarrow>
                    (case to_string L (jget expense ''category'') of
                       Inl e \<Rightarrow> Inl e
                     | Inr cat \<Rightarrow> Inr (Confirm d a cur cat)))))"

definition recordExpense :: "jslib \<Rightarrow> env \<Rightarrow> config \<Rightarrow> string \<Rightarrow> unit io" where
  "recordExpense L en cfg text =
     bind (emit (ConsoleLog ''message''))
       (\<lambda>_. bind (emit (SendMessage Thinking))
       (\<lambda>_. bind (parseExpenseWithAI en text)
       (\<lambda>expense. bind (emit (EditMessage AnalysisDone))
       (\<lambda>_.
          if \<not> truthy expense \<or> \<not> truthy (jget expense ''amount'')
               \<or> \<not> truthy (jget expense ''description'')
          then emit (SendMessage CouldNotUnderstand)
          else
            bind (lift (confirmation L expense))
              (\<lambda>c. bind (emit (SendMessage c))
              (\<lambda>_. bind (refresh_and_store en cfg
                           (''Fallo al obtener token de Gasti.pro. Verifica las credenciales ''
                            @ ''y la conexi'' @ [CHR 0xC3, CHR 0xB3] @ ''n.''))
              (\<lambda>accessToken. bind (sendTransaction L en cfg accessToken expense)
              (\<lambda>success.
                 if \<not> success
                 then throw (Error (''Fallo al enviar la transacci'' @ [CHR 0xC3, CHR 0xB3]
                                    @ ''n a Gasti.pro.''))
                 else emit (SendMessage Registered)))))))))"

section \<open>The listing (resumen.js:461-588)\<close>

text \<open>A non-negative integer in decimal, as \<open>Number::toString\<close> prints a length.\<close>

fun show_nat :: "nat \<Rightarrow> string" where
  "show_nat n =
     (if n < 10 then [''0123456789'' ! n]
      else show_nat (n div 10) @ [''0123456789'' ! (n mod 10)])"

declare show_nat.simps [simp del]

definition nl :: string where
  "nl = [CHR 0x0A]"

definition none_msg :: string where
  "none_msg = ''No se encontraron gastos recientes.''"

definition header :: string where
  "header = [CHR 0xF0, CHR 0x9F, CHR 0x93, CHR 0x8A] @ '' *Resumen de Gastos del Mes*''
            @ nl @ nl"

definition latest_title :: string where
  "latest_title = ''*'' @ [CHR 0xC3, CHR 0x9A] @ ''ltimos gastos registrados:*'' @ nl @ nl"

definition sin_categoria :: jsval where
  "sin_categoria = JStr (''Sin categor'' @ [CHR 0xC3, CHR 0xAD] @ ''a'')"

text \<open>The "and N more" note of resumen.js:498.\<close>

definition more_suffix :: "nat \<Rightarrow> string" where
  "more_suffix n = ''_... y '' @ show_nat n @ '' m'' @ [CHR 0xC3, CHR 0xA1] @ ''s._''"

text \<open>
  \<open>v.length\<close> of a truthy value. The length of a string is only ever compared with 0
  here, so it is counted in bytes.
\<close>

definition js_length :: "jsval \<Rightarrow> jsval" where
  "js_length v =
     (case v of
        JArr xs \<Rightarrow> JNum (Fin (rat_of_nat (length xs)))
      | JStr s \<Rightarrow> JNum (Fin (rat_of_nat (length s)))
      | _ \<Rightarrow> jget v ''length'')"

text \<open>
  \<open>new Date(v)\<close>: an object or an array is converted to a string first, which can throw.
\<close>

definition date_of :: "jslib \<Rightarrow> jsval \<Rightarrow> exn + int option" where
  "date_of L v =
     (case v of
        JObj ps \<Rightarrow> (case to_string L v of Inl e \<Rightarrow> Inl e | Inr s \<Rightarrow> Inr (dateParse L (JStr s)))
      | JArr xs \<Rightarrow> (case to_string L v of Inl e \<Rightarrow> Inl e | Inr s \<Rightarrow> Inr (dateParse L (JStr s)))
      | _ \<Rightarrow> Inr (dateParse L v))"

text \<open>One line of the totals (resumen.js:477-480).\<close>

definition summary_line :: "jslib \<Rightarrow> jsval \<Rightarrow> exn + string" where
  "summary_line L s =
     (case get_prop s ''expenses'' of
        Inl e \<Rightarrow> Inl e
      | Inr x \<Rightarrow>
          (case parseFloat L x of
             Inl e \<Rightarrow> Inl e
           | Inr n \<Rightarrow>
               (case to_string L (jget s ''currency'') of
                  Inl e \<Rightarrow> Inl e
                | Inr c \<Rightarrow> Inr (''*'' @ c @ '':* '' @ toLocaleString L n @ nl))))"

text \<open>\<open>forEach\<close> with a body that appends to the message and may throw.\<close>

fun append_each :: "('a \<Rightarrow> exn + string) \<Rightarrow> 'a list \<Rightarrow> exn + string" where
  "append_each f [] = Inr []"
| "append_each f (x # xs) =
     (case f x of
        Inl e \<Rightarrow> Inl e
      | Inr a \<Rightarrow> (case append_each f xs of Inl e \<Rightarrow> Inl e | Inr b \<Rightarrow> Inr (a @ b)))"

text \<open>The totals (resumen.js:476-482), under the test \<open>summary && summary.length > 0\<close>.\<close>

definition summary_block :: "jslib \<Rightarrow> jsval \<Rightarrow> exn + string" where
  "summary_block L summary =
     (if \<not> truthy summary then Inr []
      else
        (case toNumber L (js_length summary) of
           Inl e \<Rightarrow> Inl e
         | Inr n \<Rightarrow>
             if num_negative (neg_num n) then
               (case summary of
                  JArr ss \<Rightarrow>
                    (case append_each (summary_line L) ss of
                       Inl e \<Rightarrow> Inl e
                     | Inr t \<Rightarrow> Inr (t @ nl))
                | _ \<Rightarrow> Inl TypeError)
             else Inr []))"

text \<open>
  The two lines of resumen.js:493-494, over the printed date, category, description,
  amount and currency.
\<close>

definition rendered :: "string \<Rightarrow> string \<Rightarrow> string \<Rightarrow> string \<Rightarrow> string \<Rightarrow> string" where
  "rendered date category description amount currency =
     [CHR 0xF0, CHR 0x9F, CHR 0x97, CHR 0x93, CHR 0xEF, CHR 0xB8, CHR 0x8F]
     @ '' *'' @ date @ ''* - '' @ category @ nl
     @ ''   '' @ [CHR 0xE2, CHR 0x94, CHR 0x94] @ '' '' @ description @ '': *''
     @ amount @ '' '' @ currency @ ''*'' @ nl @ nl"

text \<open>One rendered transaction (resumen.js:487-494).\<close>

definition entry :: "jslib \<Rightarrow> jsval \<Rightarrow> exn + string" where
  "entry L tx =
     (case get_prop tx ''date'' of
        Inl e \<Rightarrow> Inl e
      | Inr d \<Rightarrow>
     (case date_of L d of
        Inl e \<Rightarrow> Inl e
      | Inr t \<Rightarrow>
     (case toNumber L (jget tx ''amount'') of
        Inl e \<Rightarrow> Inl e
      | Inr n \<Rightarrow>
     (case to_string L (if truthy (jget tx ''category'') then jget tx ''category''
                        else sin_categoria) of
        Inl e \<Rightarrow> Inl e
      | Inr category \<Rightarrow>
     (case to_string L (jget tx ''description'') of
        Inl e \<Rightarrow> Inl e
      | Inr description \<Rightarrow>
     (case to_string L (jget tx ''currency'') of
        Inl e \<Rightarrow> Inl e
      | Inr currency \<Rightarrow>
          Inr (rendered (toLocaleDateString L t) category description
                 (toLocaleString L (abs_num n)) currency)))))))"

text \<open>
  The text after the early return, for the transactions to show (\<open>shown\<close>) out of
  \<open>n\<close> received.
\<close>

definition listing_text :: "jslib \<Rightarrow> jsval \<Rightarrow> jsval list \<Rightarrow> nat \<Rightarrow> exn + string" where
  "listing_text L summary shown n =
     (case summary_block L summary of
        Inl e \<Rightarrow> Inl e
      | Inr sb \<Rightarrow>
          (case append_each (entry L) shown of
             Inl e \<Rightarrow> Inl e
           | Inr es \<Rightarrow>
               Inr (header @ sb @ latest_title @ es
                    @ (if n > 10 then more_suffix (n - 10) else []))))"

text \<open>
  \<open>formatApiResponse\<close> of resumen.js:468-502 (the copy in part_000 is the same): the
  first ten transactions, in the order received. Anything but an array has no \<open>slice\<close>
  or no \<open>forEach\<close>.
\<close>

definition formatApiResponse :: "jslib \<Rightarrow> jsval \<Rightarrow> exn + string" where
  "formatApiResponse L apiResponse =
     (if \<not> truthy apiResponse \<or> \<not> truthy (jget apiResponse ''transactions'')
         \<or> strict_eq (js_length (jget apiResponse ''transactions'')) (JNum (Fin 0))
      then Inr none_msg
      else
        (case jget apiResponse ''transactions'' of
           JArr transactions \<Rightarrow>
             listing_text L (jget apiResponse ''summary'') (take 10 transactions)
               (length transactions)
         | _ \<Rightarrow> Inl TypeError))"

definition getMonthlyExpenses :: "env \<Rightarrow> jsval \<Rightarrow> jsval io" where
  "getMonthlyExpenses en accessToken =
     bind (emit (ConsoleLog ''getMonthlyExpenses''))
       (\<lambda>_. bind (emit (BackendRpc ''get_transactions_summary'' accessToken))
       (\<lambda>_. case rpc_reply en of
               Ok data \<Rightarrow> bind (emit (ConsoleLog ''getMonthlyExpenses'')) (\<lambda>_. ret data)
             | HttpError \<Rightarrow>
                 bind (emit (ConsoleError ''getMonthlyExpenses''))
                   (\<lambda>_. throw (Error ''Error al llamar a la RPC de Gasti.pro.''))
             | NetworkError \<Rightarrow> throw (Error ''fetch'')
             | Malformed \<Rightarrow> throw (Error ''json'')))"

definition handleGastosCommand :: "env \<Rightarrow> config \<Rightarrow> jslib \<Rightarrow> unit io" where
  "handleGastosCommand en cfg L =
     bind (emit (SendMessage Searching))
       (\<lambda>_. catch
               (bind (refresh_and_store en cfg
                        ''Fallo al obtener token de Gasti.pro para ver los gastos.'')
                  (\<lambda>accessToken. bind (getMonthlyExpenses en accessToken)
                  (\<lambda>apiResponse. bind (lift (formatApiResponse L apiResponse))
                  (\<lambda>message. emit (EditMessage (Text message))))))
               (\<lambda>error. bind (emit (ConsoleError ''handleGastosCommand''))
                  (\<lambda>_. bind (emit (EditMessage GastosFailed))
                  (\<lambda>_. throw error))))"

section \<open>The message handler (index.js:174-237)\<close>

definition on_message :: "env \<Rightarrow> config \<Rightarrow> jslib \<Rightarrow> string option \<Rightarrow> world \<Rightarrow> world" where
  "on_message en cfg L msg_text w =
     (case msg_text of
        None \<Rightarrow> w
      | Some text \<Rightarrow>
          if text = [] then w
          else
            snd (catch
                   (if prefix ''/start'' text then
                      bind (emit (ConsoleLog ''message'')) (\<lambda>_. emit (SendMessage Help))
                    else if prefix ''/gastos'' text then
                      bind (emit (ConsoleLog ''message'')) (\<lambda>_. handleGastosCommand en cfg L)
                    else recordExpense L en cfg text)
                   (\<lambda>error. bind (emit (ConsoleError ''message''))
                      (\<lambda>_. emit (SendMessage Oops)))
                   w))"

section \<open>The narrative summary (resumen.js:49-187)\<close>

text \<open>
  The file holds a second text of this module (lines 190-460). That text is not valid
  JavaScript (a line feed inside the double-quoted literals at lines 252, 269, 291 and
  301), so it cannot be loaded and has no behaviour to model; it is left out.
\<close>

definition getAllTransactions :: "env \<Rightarrow> jsval \<Rightarrow> jsval io" where
  "getAllTransactions en accessToken =
     bind (emit (ConsoleLog ''getAllTransactions''))
       (\<lambda>_. bind (emit (BackendRpc ''get_user_transactions_by_period'' accessToken))
       (\<lambda>_. case rpc_reply en of
               Ok data \<Rightarrow>
                 bind (lift (get_prop data ''transactions''))
                   (\<lambda>t. ret (if truthy t then t else JArr []))
             | HttpError \<Rightarrow>
                 bind (emit (ConsoleError ''getAllTransactions''))
                   (\<lambda>_. throw (Error ''Error al llamar a la RPC para obtener todas las transacciones.''))
             | NetworkError \<Rightarrow> throw (Error ''fetch'')
             | Malformed \<Rightarrow> throw (Error ''json'')))"

definition no_transactions_msg :: string where
  "no_transactions_msg = ''No hay transacciones para analizar. Registra algunos gastos primero.''"

text \<open>One line of the prompt (resumen.js:104-111).\<close>

definition tx_line :: "jslib \<Rightarrow> jsval \<Rightarrow> exn + string" where
  "tx_line L tx =
     (case get_prop tx ''date'' of
        Inl e \<Rightarrow> Inl e
      | Inr d \<Rightarrow>
     (case date_of L d of
        Inl e \<Rightarrow> Inl e
      | Inr None \<Rightarrow> Inl RangeError
      | Inr (Some t) \<Rightarrow>
     (case jget tx ''description'' of
        JStr ds \<Rightarrow>
          (case toNumber L (jget tx ''amount'') of
             Inl e \<Rightarrow> Inl e
           | Inr n \<Rightarrow>
          (case to_string L (jget tx ''currency'') of
             Inl e \<Rightarrow> Inl e
           | Inr currency \<Rightarrow>
          (case to_string L (if truthy (jget tx ''category'') then jget tx ''category''
                             else sin_categoria) of
             Inl e \<Rightarrow> Inl e
           | Inr category \<Rightarrow>
               Inr (takeWhile (\<lambda>c. c \<noteq> CHR ''T'') (toISOString L t) @ '', ''
                    @ map (\<lambda>c. if c = CHR 0x0A then CHR 0x20 else c) ds @ '', ''
                    @ numberToString L (abs_num n) @ '', '' @ currency @ '', ''
                    @ category))))
      | _ \<Rightarrow> Inl TypeError)))"

text \<open>\<open>xs.map(f)\<close> with an \<open>f\<close> that may throw.\<close>

fun map_all :: "('a \<Rightarrow> exn + 'b) \<Rightarrow> 'a list \<Rightarrow> exn + 'b list" where
  "map_all f [] = Inr []"
| "map_all f (x # xs) =
     (case f x of
        Inl e \<Rightarrow> Inl e
      | Inr y \<Rightarrow> (case map_all f xs of Inl e \<Rightarrow> Inl e | Inr ys \<Rightarrow> Inr (y # ys)))"

fun join_lines :: "string list \<Rightarrow> string" where
  "join_lines [] = []"
| "join_lines [l] = l"
| "join_lines (l # m # ls) = l @ nl @ join_lines (m # ls)"

definition user_prompt :: "string \<Rightarrow> string" where
  "user_prompt formattedTransactions =
     ''Aqu'' @ [CHR 0xC3, CHR 0xAD] @ '' est'' @ [CHR 0xC3, CHR 0xA1]
     @ ''n mis transacciones de gastos:'' @ nl @ nl @ formattedTransactions @ nl @ nl
     @ ''Por favor, genera el resumen financiero detallado siguiendo las instrucciones que te di.''"

text \<open>The completion call of resumen.js:115-139.\<close>

definition narrate :: "env \<Rightarrow> string \<Rightarrow> string io" where
  "narrate en content =
     bind (emit (ConsoleLog ''analyzeExpensesWithAI''))
       (\<lambda>_. bind (emit (LlmRequest content))
       (\<lambda>_. case llm_text en content of
               Ok t \<Rightarrow> ret t
             | HttpError \<Rightarrow>
                 bind (emit (ConsoleError ''analyzeExpensesWithAI''))
                   (\<lambda>_. throw (Error ''Error en la respuesta de la API de DeepSeek para el resumen.''))
             | NetworkError \<Rightarrow> throw (Error ''fetch'')
             | Malformed \<Rightarrow> throw TypeError))"

definition analyzeExpensesWithAI :: "env \<Rightarrow> jslib \<Rightarrow> jsval \<Rightarrow> string io" where
  "analyzeExpensesWithAI en L transactions =
     (if strict_eq (js_length transactions) (JNum (Fin 0)) then ret no_transactions_msg
      else
        (case transactions of
           JArr txs \<Rightarrow>
             bind (lift (map_all (tx_line L) txs))
               (\<lambda>ls. narrate en (user_prompt (join_lines ls)))
         | _ \<Rightarrow> throw TypeError))"

definition handleResumenCommand :: "env \<Rightarrow> config \<Rightarrow> jslib \<Rightarrow> unit io" where
  "handleResumenCommand en cfg L =
     bind (emit (SendMessage ResumenThinking))
       (\<lambda>_. catch
               (bind (refresh_and_store en cfg
                        ''Fallo al obtener token de Gasti.pro para generar el resumen.'')
                  (\<lambda>accessToken. bind (getAllTransactions en accessToken)
                  (\<lambda>allTransactions. bind (analyzeExpensesWithAI en L allTransactions)
                  (\<lambda>aiSummary. emit (EditMessage (Text aiSummary))))))
               (\<lambda>error. bind (emit (ConsoleError ''handleResumenCommand''))
                  (\<lambda>_. bind (emit (EditMessage ResumenFailed))
                  (\<lambda>_. throw error))))"

section \<open>Reading a trace\<close>

fun posts :: "event list \<Rightarrow> payload list" where
  "posts [] = []"
| "posts (TransactionPost a p # es) = p # posts es"
| "posts (e # es) = posts es"

fun token_writes :: "event list \<Rightarrow> jsval list" where
  "token_writes [] = []"
| "token_writes (TokenWrite t # es) = t # token_writes es"
| "token_writes (e # es) = token_writes es"

fun llm_requests :: "event list \<Rightarrow> string list" where
  "llm_requests [] = []"
| "llm_requests (LlmRequest t # es) = t # llm_requests es"
| "llm_requests (e # es) = llm_requests es"

fun console_errors :: "event list \<Rightarrow> string list" where
  "console_errors [] = []"
| "console_errors (ConsoleError t # es) = t # console_errors es"
| "console_errors (e # es) = console_errors es"

text \<open>What the chat sees: the messages sent and edited, in order.\<close>

fun replies :: "event list \<Rightarrow> reply list" where
  "replies [] = []"
| "replies (SendMessage r # es) = r # replies es"
| "replies (EditMessage r # es) = r # replies es"
| "replies (e # es) = replies es"

text \<open>A run starts with an empty trace, on a token file in some state.\<close>

definition start :: "token_file \<Rightarrow> world" where
  "start f = \<lparr> token_file = f, trace = [] \<rparr>"

text \<open>The value \<open>readRefreshToken\<close> returns on a token file.\<close>

definition stored_token :: "config \<Rightarrow> token_file \<Rightarrow> jsval" where
  "stored_token cfg f =
     (case fst (readRefreshToken cfg (start f)) of Inl _ \<Rightarrow> JUndefined | Inr t \<Rightarrow> t)"

text \<open>
  The model's answer is an expense the recorder accepts: a truthy value without an
  \<open>error\<close> field, with an amount and a description.
\<close>

definition expense_understood :: "jsval outcome \<Rightarrow> bool" where
  "expense_understood r =
     (case r of
        Ok e \<Rightarrow> truthy e \<and> \<not> truthy (jget e ''error'') \<and> truthy (jget e ''amount'')
                \<and> truthy (jget e ''description'')
      | _ \<Rightarrow> False)"

text \<open>The refresh call came back with an access token.\<close>

definition refresh_succeeded :: "jsval outcome \<Rightarrow> bool" where
  "refresh_succeeded r = (case r of Ok data \<Rightarrow> truthy (jget data ''access_token'') | _ \<Rightarrow> False)"

text \<open>The two tokens of a refresh reply.\<close>

definition returned_access :: "jsval outcome \<Rightarrow> jsval" where
  "returned_access r = (case r of Ok data \<Rightarrow> jget data ''access_token'' | _ \<Rightarrow> JUndefined)"

definition returned_refresh :: "jsval outcome \<Rightarrow> jsval" where
  "returned_refresh r = (case r of Ok data \<Rightarrow> jget data ''refresh_token'' | _ \<Rightarrow> JUndefined)"

text \<open>The value \<open>getNewAccessToken\<close> returns for a reply of the backend.\<close>

definition token_data :: "jsval outcome \<Rightarrow> jsval" where
  "token_data r =
     (case r of
        Ok data \<Rightarrow>
          (case get_prop data ''access_token'' of
             Inl _ \<Rightarrow> JNull
           | Inr a \<Rightarrow> JObj [(''accessToken'', a),
                             (''newRefreshToken'', jget data ''refresh_token'')])
      | _ \<Rightarrow> JNull)"

text \<open>The value \<open>parseExpenseWithAI\<close> returns for an answer of the model.\<close>

definition parsed_expense :: "jsval outcome \<Rightarrow> jsval" where
  "parsed_expense r =
     (case r of
        Ok e \<Rightarrow> (case get_prop e ''error'' of
                   Inl _ \<Rightarrow> JNull
                 | Inr er \<Rightarrow> if truthy er then JNull else e)
      | _ \<Rightarrow> JNull)"

text \<open>The events of handling one message, from a token file in state \<open>f\<close>.\<close>

definition run_events ::
  "env \<Rightarrow> config \<Rightarrow> jslib \<Rightarrow> string option \<Rightarrow> token_file \<Rightarrow> event list" where
  "run_events en cfg L msg_text f = trace (on_message en cfg L msg_text (start f))"

text \<open>
  The guard of index.js:222: the reply carries a refresh token and it is not the stored one.
\<close>

definition rotated :: "env \<Rightarrow> config \<Rightarrow> token_file \<Rightarrow> bool" where
  "rotated en cfg f =
     (truthy (returned_refresh (refresh_reply en (stored_token cfg f)))
      \<and> \<not> strict_eq (returned_refresh (refresh_reply en (stored_token cfg f)))
            (stored_token cfg f))"


text \<open>What the refresh block leaves in the token file, and the tokens it writes.\<close>

definition file_after :: "env \<Rightarrow> config \<Rightarrow> token_file \<Rightarrow> token_file" where
  "file_after en cfg f =
     (if refresh_succeeded (refresh_reply en (stored_token cfg f)) \<and> rotated en cfg f
      then (case write_result en of
              WriteOk \<Rightarrow>
                Parsed (JObj [(''refreshToken'',
                                returned_refresh (refresh_reply en (stored_token cfg f))),
                              (''lastUpdated'', JStr (now en))])
            | WriteFails f' \<Rightarrow> f')
      else f)"

definition written :: "env \<Rightarrow> config \<Rightarrow> token_file \<Rightarrow> jsval list" where
  "written en cfg f =
     (if refresh_succeeded (refresh_reply en (stored_token cfg f)) \<and> rotated en cfg f
      then [returned_refresh (refresh_reply en (stored_token cfg f))] else [])"

section \<open>Concrete runs\<close>

text \<open>
  Three messages and what the model makes of them: the dinner of the help text, a purchase
  in pesos whose amount comes back as a string, and a gift whose amount is the string "0";
  any other text is called no expense. The backend rotates the refresh token.
\<close>

definition example_expense :: jsval where
  "example_expense =
     JObj [(''amount'', JNum (Fin (91 / 2))),
           (''description'', JStr ''Cena con amigos''),
           (''currency'', JStr ''usd''),
           (''category'', JStr ''Comida'')]"

definition pesos_expense :: jsval where
  "pesos_expense =
     JObj [(''amount'', JStr ''50000''),
           (''description'', JStr ''Zapatillas''),
           (''currency'', JStr ''ars''),
           (''category'', JStr ''Ropa'')]"

definition zero_expense :: jsval where
  "zero_expense = JObj [(''amount'', JStr ''0''), (''description'', JStr ''Regalo'')]"

definition example_env :: env where
  "example_env =
     \<lparr> llm_expense =
         (\<lambda>t. if t = ''Cena con amigos 45.50 usd'' then Ok example_expense
              else if t = ''Zapatillas por 50000 pesos'' then Ok pesos_expense
              else if t = ''Regalo 0'' then Ok zero_expense
              else Ok (JObj [(''error'', JStr ''El texto no parece ser un gasto.'')])),
       llm_text = (\<lambda>_. Ok ''Resumen''),
       refresh_reply = (\<lambda>_. Ok (JObj [(''access_token'', JStr ''access-1''),
                                       (''refresh_token'', JStr ''refresh-2'')])),
       post_reply = PostStatus True,
       rpc_reply = Ok (JObj [(''transactions'', JArr [])]),
       write_result = WriteOk,
       now = ''2025-07-23T12:00:00.000Z'' \<rparr>"


definition example_config :: config where
  "example_config =
     \<lparr> seed = ''refresh-1'', user_email = JStr ''user@example.com'', user_id = JStr ''user-1'' \<rparr>"

text \<open>
  A stand-in for the runtime: a table that answers as JavaScript does on the values the
  examples use (\<open>parseFloat("50000")\<close> is 50000, \<open>String(45.5)\<close> is "45.5",
  15 January 2025 prints as "15/01", and so on). No example depends on an answer outside
  the table.
\<close>

definition example_lib :: jslib where
  "example_lib =
     \<lparr> numberToString = (\<lambda>n. if n = Fin (91 / 2) then ''45.5'' else ''#''),
       parseFloat_str =
         (\<lambda>s. if s = ''50000'' then Fin 50000 else if s = ''0'' then Fin 0 else NaN),
       toNumber_str =
         (\<lambda>s. if s = ''50000'' then Fin 50000 else if s = ''0'' then Fin 0 else NaN),
       upper_wide = (\<lambda>s. s),
       dateParse =
         (\<lambda>v. if v = JStr ''2025-01-15T10:00:00Z'' then Some 1736935200000
              else if v = JStr ''2025-02-15T10:00:00Z'' then Some 1739613600000
              else if v = JStr ''2025-07-01T10:00:00Z'' then Some 1751364000000
              else None),
       toLocaleDateString =
         (\<lambda>t. if t = Some 1736935200000 then ''15/01''
              else if t = Some 1739613600000 then ''15/02''
              else if t = Some 1751364000000 then ''01/07''
              else ''Invalid Date''),
       toLocaleString =
         (\<lambda>n. if n = Fin 10 then ''10'' else if n = Fin 20 then ''20'' else ''#''),
       toISOString = (\<lambda>_. ''1970-01-01T00:00:00.000Z'') \<rparr>"

definition example_payload :: payload where
  "example_payload =
     \<lparr> p_description = JStr ''Cena con amigos'',
       p_amount = Fin (- (91 / 2)),
       p_category = JStr ''Comida'',
       p_type = ''expense'',
       p_date = ''2025-07-23T12:00:00.000Z'',
       p_currency = ''USD'',
       p_user_email = JStr ''user@example.com'',
       p_user_id = JStr ''user-1'' \<rparr>"

definition pesos_payload :: payload where
  "pesos_payload =
     \<lparr> p_description = JStr ''Zapatillas'',
       p_amount = Fin (- 50000),
       p_category = JStr ''Ropa'',
       p_type = ''expense'',
       p_date = ''2025-07-23T12:00:00.000Z'',
       p_currency = ''ARS'',
       p_user_email = JStr ''user@example.com'',
       p_user_id = JStr ''user-1'' \<rparr>"

definition zero_payload :: payload where
  "zero_payload =
     \<lparr> p_description = JStr ''Regalo'',
       p_amount = Fin 0,
       p_category = JUndefined,
       p_type = ''expense'',
       p_date = ''2025-07-23T12:00:00.000Z'',
       p_currency = ''USD'',
       p_user_email = JStr ''user@example.com'',
       p_user_id = JStr ''user-1'' \<rparr>"






section \<open>Running the model\<close>

lemma posts_append [simp]: "posts (xs @ ys) = posts xs @ posts ys"
  by (induction xs rule: posts.induct) auto

lemma token_writes_append [simp]: "token_writes (xs @ ys) = token_writes xs @ token_writes ys"
  by (induction xs rule: token_writes.induct) auto

lemma llm_requests_append [simp]: "llm_requests (xs @ ys) = llm_requests xs @ llm_requests ys"
  by (induction xs rule: llm_requests.induct) auto

lemma console_errors_append [simp]:
  "console_errors (xs @ ys) = console_errors xs @ console_errors ys"
  by (induction xs rule: console_errors.induct) auto

lemma replies_append [simp]: "replies (xs @ ys) = replies xs @ replies ys"
  by (induction xs rule: replies.induct) auto

lemma fst_bind:
  "fst (bind m f w) = (case fst (m w) of Inl e \<Rightarrow> Inl e | Inr x \<Rightarrow> fst (f x (snd (m w))))"
  by (simp add: bind_def split: prod.splits sum.splits)

lemma snd_bind:
  "snd (bind m f w) = (case fst (m w) of Inl e \<Rightarrow> snd (m w) | Inr x \<Rightarrow> snd (f x (snd (m w))))"
  by (simp add: bind_def split: prod.splits sum.splits)

lemma fst_catch:
  "fst (catch m h w) = (case fst (m w) of Inl e \<Rightarrow> fst (h e (snd (m w))) | Inr x \<Rightarrow> Inr x)"
  by (simp add: catch_def split: prod.splits sum.splits)

lemma snd_catch:
  "snd (catch m h w) = (case fst (m w) of Inl e \<Rightarrow> snd (h e (snd (m w))) | Inr x \<Rightarrow> snd (m w))"
  by (simp add: catch_def split: prod.splits sum.splits)

lemma io_ret [simp]: "fst (ret x w) = Inr x" "snd (ret x w) = w"
  by (simp_all add: ret_def)

lemma io_throw [simp]: "fst (throw e w) = Inl e" "snd (throw e w) = w"
  by (simp_all add: throw_def)

lemma io_lift [simp]: "fst (lift r w) = r" "snd (lift r w) = w"
  by (simp_all add: lift_def)

lemma io_emit [simp]:
  "fst (emit e w) = Inr ()"
  "trace (snd (emit e w)) = trace w @ [e]"
  "token_file (snd (emit e w)) = token_file w"
  by (simp_all add: emit_def)

lemmas io_run = fst_bind snd_bind fst_catch snd_catch

lemma get_prop_Inl: "get_prop v k = Inl x \<Longrightarrow> \<not> truthy v"
  by (cases v) (auto split: option.splits)

lemma get_prop_truthy: "truthy v \<Longrightarrow> get_prop v k = Inr (jget v k)"
  by (cases v) (auto simp: jget_def split: option.splits)

lemma toUpperCase_USD [simp]: "toUpperCase L ''USD'' = ''USD''"
  by (simp add: toUpperCase_def is_ascii_def upper_char_def)

subsection \<open>Token store and refresh\<close>

lemma readRefreshToken_run [simp]:
  "fst (readRefreshToken cfg w) = Inr (stored_token cfg (token_file w))"
  "token_file (snd (readRefreshToken cfg w)) = token_file w"
  "posts (trace (snd (readRefreshToken cfg w))) = posts (trace w)"
  "replies (trace (snd (readRefreshToken cfg w))) = replies (trace w)"
  "token_writes (trace (snd (readRefreshToken cfg w))) = token_writes (trace w)"
  "llm_requests (trace (snd (readRefreshToken cfg w))) = llm_requests (trace w)"
  by (auto simp: readRefreshToken_def stored_token_def start_def io_run
      split: token_file.splits sum.splits)

lemma writeRefreshToken_run [simp]:
  "fst (writeRefreshToken en t w) = Inr ()"
  "token_file (snd (writeRefreshToken en t w)) =
     (case write_result en of
        WriteOk \<Rightarrow> Parsed (JObj [(''refreshToken'', t), (''lastUpdated'', JStr (now en))])
      | WriteFails f \<Rightarrow> f)"
  "posts (trace (snd (writeRefreshToken en t w))) = posts (trace w)"
  "replies (trace (snd (writeRefreshToken en t w))) = replies (trace w)"
  "token_writes (trace (snd (writeRefreshToken en t w))) = token_writes (trace w) @ [t]"
  "llm_requests (trace (snd (writeRefreshToken en t w))) = llm_requests (trace w)"
  by (auto simp: writeRefreshToken_def Let_def emit_def split: write_outcome.splits)

lemma getNewAccessToken_run [simp]:
  "fst (getNewAccessToken en t w) = Inr (token_data (refresh_reply en t))"
  "token_file (snd (getNewAccessToken en t w)) = token_file w"
  "posts (trace (snd (getNewAccessToken en t w))) = posts (trace w)"
  "replies (trace (snd (getNewAccessToken en t w))) = replies (trace w)"
  "token_writes (trace (snd (getNewAccessToken en t w))) = token_writes (trace w)"
  "llm_requests (trace (snd (getNewAccessToken en t w))) = llm_requests (trace w)"
  by (auto simp: getNewAccessToken_def token_data_def io_run split: outcome.splits sum.splits)

lemma token_data_fields:
  "refresh_succeeded r \<Longrightarrow>
   token_data r = JObj [(''accessToken'', returned_access r),
                        (''newRefreshToken'', returned_refresh r)]"
  by (auto simp: refresh_succeeded_def returned_access_def returned_refresh_def jget_def
      token_data_def split: outcome.splits sum.splits)

lemma token_data_falsy:
  "\<not> refresh_succeeded r \<Longrightarrow>
   \<not> (truthy (token_data r) \<and> truthy (jget (token_data r) ''accessToken''))"
  by (auto simp: refresh_succeeded_def jget_def token_data_def split: outcome.splits sum.splits)

lemma succeeded_access: "refresh_succeeded r \<Longrightarrow> truthy (returned_access r)"
  by (auto simp: refresh_succeeded_def returned_access_def split: outcome.splits)

lemma refresh_and_store_fail:
  assumes "\<not> refresh_succeeded (refresh_reply en (stored_token cfg (token_file w)))"
  shows "fst (refresh_and_store en cfg msg w) = Inl (Error msg)"
    "token_file (snd (refresh_and_store en cfg msg w)) = token_file w"
    "token_writes (trace (snd (refresh_and_store en cfg msg w))) = token_writes (trace w)"
  using token_data_falsy[OF assms]
  by (auto simp: refresh_and_store_def io_run)

lemma refresh_and_store_ok:
  assumes "refresh_succeeded (refresh_reply en (stored_token cfg (token_file w)))"
  shows "fst (refresh_and_store en cfg msg w)
           = Inr (returned_access (refresh_reply en (stored_token cfg (token_file w))))"
    "token_file (snd (refresh_and_store en cfg msg w)) =
       (if truthy (returned_refresh (refresh_reply en (stored_token cfg (token_file w))))
           \<and> \<not> strict_eq (returned_refresh (refresh_reply en (stored_token cfg (token_file w))))
                 (stored_token cfg (token_file w))
        then (case write_result en of
                WriteOk \<Rightarrow>
                  Parsed (JObj [(''refreshToken'',
                                  returned_refresh
                                    (refresh_reply en (stored_token cfg (token_file w)))),
                                (''lastUpdated'', JStr (now en))])
              | WriteFails f \<Rightarrow> f)
        else token_file w)"
    "token_writes (trace (snd (refresh_and_store en cfg msg w))) =
       token_writes (trace w) @
       (if truthy (returned_refresh (refresh_reply en (stored_token cfg (token_file w))))
           \<and> \<not> strict_eq (returned_refresh (refresh_reply en (stored_token cfg (token_file w))))
                 (stored_token cfg (token_file w))
        then [returned_refresh (refresh_reply en (stored_token cfg (token_file w)))] else [])"
  using assms
  by (auto simp: refresh_and_store_def io_run token_data_fields jget_def succeeded_access)

lemma refresh_and_store_quiet [simp]:
  "posts (trace (snd (refresh_and_store en cfg msg w))) = posts (trace w)"
  "replies (trace (snd (refresh_and_store en cfg msg w))) = replies (trace w)"
  "llm_requests (trace (snd (refresh_and_store en cfg msg w))) = llm_requests (trace w)"
  by (auto simp: refresh_and_store_def io_run)

subsection \<open>The recorder\<close>

lemma sendTransaction_run [simp]:
  "fst (sendTransaction L en cfg a e w) =
     (case transactionPayload L en cfg e of
        Inl x \<Rightarrow> Inl x
      | Inr p \<Rightarrow> Inr (post_reply en = PostStatus True))"
  "token_file (snd (sendTransaction L en cfg a e w)) = token_file w"
  "posts (trace (snd (sendTransaction L en cfg a e w))) =
     posts (trace w) @ (case transactionPayload L en cfg e of Inl x \<Rightarrow> [] | Inr p \<Rightarrow> [p])"
  "replies (trace (snd (sendTransaction L en cfg a e w))) = replies (trace w)"
  "token_writes (trace (snd (sendTransaction L en cfg a e w))) = token_writes (trace w)"
  "llm_requests (trace (snd (sendTransaction L en cfg a e w))) = llm_requests (trace w)"
  by (auto simp: sendTransaction_def io_run split: sum.splits post_outcome.splits bool.splits)

lemma parseExpenseWithAI_run [simp]:
  "fst (parseExpenseWithAI en text w) = Inr (parsed_expense (llm_expense en text))"
  "token_file (snd (parseExpenseWithAI en text w)) = token_file w"
  "posts (trace (snd (parseExpenseWithAI en text w))) = posts (trace w)"
  "replies (trace (snd (parseExpenseWithAI en text w))) = replies (trace w)"
  "token_writes (trace (snd (parseExpenseWithAI en text w))) = token_writes (trace w)"
  "llm_requests (trace (snd (parseExpenseWithAI en text w))) = llm_requests (trace w) @ [text]"
  by (auto simp: parseExpenseWithAI_def parsed_expense_def io_run
      split: outcome.splits sum.splits)

lemma guard_understood:
  "(truthy (parsed_expense r) \<and> truthy (jget (parsed_expense r) ''amount'')
     \<and> truthy (jget (parsed_expense r) ''description'')) = expense_understood r"
  by (cases r)
    (auto simp: parsed_expense_def expense_understood_def jget_def dest: get_prop_Inl
      split: sum.splits)

lemma understood_parsed: "expense_understood r \<Longrightarrow> r = Ok (parsed_expense r)"
  by (cases r)
    (auto simp: parsed_expense_def expense_understood_def jget_def dest: get_prop_Inl
      split: sum.splits)

lemma recordExpense_not_understood:
  assumes "\<not> expense_understood (llm_expense en text)"
  shows "posts (trace (snd (recordExpense L en cfg text w))) = posts (trace w)"
    "replies (trace (snd (recordExpense L en cfg text w))) =
       replies (trace w) @ [Thinking, AnalysisDone, CouldNotUnderstand]"
    "token_writes (trace (snd (recordExpense L en cfg text w))) = token_writes (trace w)"
    "token_file (snd (recordExpense L en cfg text w)) = token_file w"
    "fst (recordExpense L en cfg text w) = Inr ()"
  using assms guard_understood[of "llm_expense en text"]
  by (auto simp: recordExpense_def io_run)

lemma recordExpense_llm_requests [simp]:
  "llm_requests (trace (snd (recordExpense L en cfg text w))) = llm_requests (trace w) @ [text]"
  by (simp add: recordExpense_def io_run split: sum.splits)

lemma recordExpense_posts:
  "posts (trace (snd (recordExpense L en cfg text w))) =
     posts (trace w) @
     (if expense_understood (llm_expense en text)
         \<and> \<not> isl (confirmation L (parsed_expense (llm_expense en text)))
         \<and> refresh_succeeded (refresh_reply en (stored_token cfg (token_file w)))
      then (case transactionPayload L en cfg (parsed_expense (llm_expense en text)) of
              Inl _ \<Rightarrow> [] | Inr p \<Rightarrow> [p])
      else [])"
proof (cases "expense_understood (llm_expense en text)")
  case False
  then show ?thesis by (simp add: recordExpense_not_understood)
next
  case True
  let ?e = "parsed_expense (llm_expense en text)"
  from True have g: "truthy ?e" "truthy (jget ?e ''amount'')" "truthy (jget ?e ''description'')"
    using guard_understood[of "llm_expense en text"] by auto
  show ?thesis
  proof (cases "confirmation L ?e")
    case (Inl x)
    with g True show ?thesis by (simp add: recordExpense_def io_run)
  next
    case (Inr c)
    show ?thesis
    proof (cases "refresh_succeeded (refresh_reply en (stored_token cfg (token_file w)))")
      case False
      with Inr g True show ?thesis
        by (simp add: recordExpense_def io_run refresh_and_store_fail)
    next
      case r: True
      with Inr g True show ?thesis
        by (simp add: recordExpense_def io_run refresh_and_store_ok split: sum.splits)
    qed
  qed
qed

subsection \<open>The message handler\<close>

lemma getMonthlyExpenses_quiet [simp]:
  "token_file (snd (getMonthlyExpenses en a w)) = token_file w"
  "posts (trace (snd (getMonthlyExpenses en a w))) = posts (trace w)"
  "replies (trace (snd (getMonthlyExpenses en a w))) = replies (trace w)"
  "token_writes (trace (snd (getMonthlyExpenses en a w))) = token_writes (trace w)"
  "llm_requests (trace (snd (getMonthlyExpenses en a w))) = llm_requests (trace w)"
  by (auto simp: getMonthlyExpenses_def io_run split: outcome.splits)

lemma handleGastosCommand_posts [simp]:
  "posts (trace (snd (handleGastosCommand en cfg L w))) = posts (trace w)"
  by (simp add: handleGastosCommand_def io_run split: sum.splits)

lemma on_message_posts:
  "posts (trace (on_message en cfg L (Some text) w)) =
     posts (trace w) @
     (if text \<noteq> [] \<and> \<not> prefix ''/start'' text \<and> \<not> prefix ''/gastos'' text
         \<and> expense_understood (llm_expense en text)
         \<and> \<not> isl (confirmation L (parsed_expense (llm_expense en text)))
         \<and> refresh_succeeded (refresh_reply en (stored_token cfg (token_file w)))
      then (case transactionPayload L en cfg (parsed_expense (llm_expense en text)) of
              Inl _ \<Rightarrow> [] | Inr p \<Rightarrow> [p])
      else [])"
  by (simp add: on_message_def io_run recordExpense_posts split: sum.splits)

lemma run_posts:
  "posts (run_events en cfg L (Some text) f) =
     (if text \<noteq> [] \<and> \<not> prefix ''/start'' text \<and> \<not> prefix ''/gastos'' text
         \<and> expense_understood (llm_expense en text)
         \<and> \<not> isl (confirmation L (parsed_expense (llm_expense en text)))
         \<and> refresh_succeeded (refresh_reply en (stored_token cfg f))
      then (case transactionPayload L en cfg (parsed_expense (llm_expense en text)) of
              Inl _ \<Rightarrow> [] | Inr q \<Rightarrow> [q])
      else [])"
  apply (simp only: run_events_def)
  apply (simp only: on_message_posts)
  apply (simp add: start_def)
  done

subsection \<open>The token store across the commands\<close>

lemma stored_token_Parsed [simp]:
  "stored_token cfg (Parsed (JObj ((''refreshToken'', t) # ps))) = t"
  by (simp add: stored_token_def readRefreshToken_def start_def io_run)

lemma stored_token_seed:
  "f = Missing \<or> f = Unreadable \<or> f = Invalid_json \<Longrightarrow> stored_token cfg f = JStr (seed cfg)"
  by (auto simp: stored_token_def readRefreshToken_def start_def io_run)

lemma refresh_and_store_tokens [simp]:
  "token_file (snd (refresh_and_store en cfg msg w)) = file_after en cfg (token_file w)"
  "token_writes (trace (snd (refresh_and_store en cfg msg w))) =
     token_writes (trace w) @ written en cfg (token_file w)"
  by (cases "refresh_succeeded (refresh_reply en (stored_token cfg (token_file w)))";
      simp add: refresh_and_store_ok refresh_and_store_fail file_after_def written_def
        rotated_def)+


lemma handleGastosCommand_tokens [simp]:
  "token_file (snd (handleGastosCommand en cfg L w)) = file_after en cfg (token_file w)"
  "token_writes (trace (snd (handleGastosCommand en cfg L w))) =
     token_writes (trace w) @ written en cfg (token_file w)"
  by (simp_all add: handleGastosCommand_def io_run split: sum.splits)

lemma getAllTransactions_quiet [simp]:
  "token_file (snd (getAllTransactions en a w)) = token_file w"
  "posts (trace (snd (getAllTransactions en a w))) = posts (trace w)"
  "token_writes (trace (snd (getAllTransactions en a w))) = token_writes (trace w)"
  by (auto simp: getAllTransactions_def io_run split: outcome.splits sum.splits)

lemma narrate_quiet [simp]:
  "token_file (snd (narrate en c w)) = token_file w"
  "posts (trace (snd (narrate en c w))) = posts (trace w)"
  "token_writes (trace (snd (narrate en c w))) = token_writes (trace w)"
  by (auto simp: narrate_def io_run split: outcome.splits)

lemma analyzeExpensesWithAI_quiet [simp]:
  "token_file (snd (analyzeExpensesWithAI en L t w)) = token_file w"
  "posts (trace (snd (analyzeExpensesWithAI en L t w))) = posts (trace w)"
  "token_writes (trace (snd (analyzeExpensesWithAI en L t w))) = token_writes (trace w)"
  by (auto simp: analyzeExpensesWithAI_def io_run split: jsval.splits sum.splits)

lemma handleResumenCommand_tokens [simp]:
  "token_file (snd (handleResumenCommand en cfg L w)) = file_after en cfg (token_file w)"
  "token_writes (trace (snd (handleResumenCommand en cfg L w))) =
     token_writes (trace w) @ written en cfg (token_file w)"
  by (simp_all add: handleResumenCommand_def io_run split: sum.splits)




subsection \<open>The concrete runs\<close>


lemma example_refresh:
  "refresh_succeeded (refresh_reply example_env t)"
  by (simp add: example_env_def refresh_succeeded_def jget_def)

lemma dinner_understood:
  "expense_understood (llm_expense example_env ''Cena con amigos 45.50 usd'')"
  "parsed_expense (llm_expense example_env ''Cena con amigos 45.50 usd'')
     = example_expense"
  by (simp_all add: example_env_def example_expense_def expense_understood_def
      parsed_expense_def jget_def)

lemma dinner_confirmation:
  "confirmation example_lib example_expense = Inr (Confirm ''Cena con amigos'' ''45.5'' ''USD'' ''Comida'')"
  by (simp add: confirmation_def example_expense_def example_lib_def jget_def
      upper_currency_def toUpperCase_def is_ascii_def upper_char_def)

lemma dinner_payload:
  "transactionPayload example_lib example_env example_config
     example_expense = Inr example_payload"
  by (simp add: transactionPayload_def example_expense_def example_lib_def jget_def
      upper_currency_def toUpperCase_def is_ascii_def upper_char_def example_env_def
      example_config_def example_payload_def)

lemma payload_write_result [simp]:
  "transactionPayload L (en\<lparr>write_result := wr\<rparr>) cfg e = transactionPayload L en cfg e"
  by (simp add: transactionPayload_def split: sum.splits)

lemma dinner_posts:
  "posts (run_events (example_env\<lparr>write_result := wr\<rparr>) example_config example_lib
            (Some ''Cena con amigos 45.50 usd'') Missing) = [example_payload]"
  by (simp add: run_posts dinner_understood dinner_confirmation dinner_payload example_refresh)

lemma pesos_understood:
  "expense_understood (llm_expense example_env ''Zapatillas por 50000 pesos'')"
  "parsed_expense (llm_expense example_env ''Zapatillas por 50000 pesos'') = pesos_expense"
  by (simp_all add: example_env_def pesos_expense_def expense_understood_def
      parsed_expense_def jget_def)

lemma pesos_confirmation:
  "confirmation example_lib pesos_expense = Inr (Confirm ''Zapatillas'' ''50000'' ''ARS'' ''Ropa'')"
  by (simp add: confirmation_def pesos_expense_def example_lib_def jget_def
      upper_currency_def toUpperCase_def is_ascii_def upper_char_def)

lemma pesos_payload_eq:
  "transactionPayload example_lib example_env example_config pesos_expense = Inr pesos_payload"
  by (simp add: transactionPayload_def pesos_expense_def example_lib_def jget_def
      upper_currency_def toUpperCase_def is_ascii_def upper_char_def example_env_def
      example_config_def pesos_payload_def)

lemma pesos_posts:
  "posts (run_events example_env example_config example_lib
            (Some ''Zapatillas por 50000 pesos'') Missing) = [pesos_payload]"
    by (simp add: run_posts pesos_understood pesos_confirmation pesos_payload_eq example_refresh)

lemma zero_understood:
  "expense_understood (llm_expense example_env ''Regalo 0'')"
  "parsed_expense (llm_expense example_env ''Regalo 0'') = zero_expense"
  by (simp_all add: example_env_def zero_expense_def expense_understood_def
      parsed_expense_def jget_def)

lemma zero_confirmation:
  "confirmation example_lib zero_expense = Inr (Confirm ''Regalo'' ''0'' ''USD'' ''undefined'')"
  by (simp add: confirmation_def zero_expense_def example_lib_def jget_def
      upper_currency_def)

lemma zero_payload_eq:
  "transactionPayload example_lib example_env example_config zero_expense = Inr zero_payload"
  by (simp add: transactionPayload_def zero_expense_def example_lib_def jget_def
      upper_currency_def example_env_def example_config_def zero_payload_def)

lemma zero_posts:
  "posts (run_events example_env example_config example_lib (Some ''Regalo 0'') Missing)
     = [zero_payload]"
    by (simp add: run_posts zero_understood zero_confirmation zero_payload_eq example_refresh)

lemma recordExpense_registered:
  assumes "expense_understood (llm_expense en line)"
    and "confirmation L (parsed_expense (llm_expense en line)) = Inr c"
    and "refresh_succeeded (refresh_reply en (stored_token cfg (token_file w)))"
    and "transactionPayload L en cfg (parsed_expense (llm_expense en line)) = Inr p"
    and "post_reply en = PostStatus True"
  shows "replies (trace (snd (recordExpense L en cfg line w))) =
           replies (trace w) @ [Thinking, AnalysisDone, c, Registered]"
    and "fst (recordExpense L en cfg line w) = Inr ()"
proof -
  let ?e = "parsed_expense (llm_expense en line)"
  from assms(1) have g: "truthy ?e" "truthy (jget ?e ''amount'')" "truthy (jget ?e ''description'')"
    using guard_understood[of "llm_expense en line"] by auto
  show "replies (trace (snd (recordExpense L en cfg line w))) =
           replies (trace w) @ [Thinking, AnalysisDone, c, Registered]"
    using g assms(2-5) by (simp add: recordExpense_def io_run refresh_and_store_ok)
  show "fst (recordExpense L en cfg line w) = Inr ()"
    using g assms(2-5) by (simp add: recordExpense_def io_run refresh_and_store_ok)
qed

lemma on_message_not_understood:
  assumes "text \<noteq> []" "\<not> prefix ''/start'' text" "\<not> prefix ''/gastos'' text"
    and "\<not> expense_understood (llm_expense en text)"
  shows "replies (trace (on_message en cfg L (Some text) w)) =
           replies (trace w) @ [Thinking, AnalysisDone, CouldNotUnderstand]"
  using assms by (simp add: on_message_def io_run recordExpense_not_understood)


lemma payload_fields:
  assumes "transactionPayload L en cfg e = Inr p"
  shows "\<exists>v. parseFloat L (jget e ''amount'') = Inr v \<and> p_amount p = neg_num (abs_num v)"
    "p_type p = ''expense''"
    "truthy (jget e ''currency'') \<Longrightarrow>
       \<exists>s. jget e ''currency'' = JStr s \<and> p_currency p = toUpperCase L s"
    "\<not> truthy (jget e ''currency'') \<Longrightarrow> p_currency p = ''USD''"
  using assms
  by (auto simp: transactionPayload_def upper_currency_def
      split: sum.splits jsval.splits if_splits)

lemma negated_abs_negative: "v \<noteq> NaN \<Longrightarrow> v \<noteq> Fin 0 \<Longrightarrow> num_negative (neg_num (abs_num v))"
  by (cases v) auto

lemma posted_payload:
  assumes "p \<in> set (posts (run_events en cfg L (Some line) f))"
  shows "expense_understood (llm_expense en line)"
    and "transactionPayload L en cfg (parsed_expense (llm_expense en line)) = Inr p"
proof -
  let ?r = "llm_expense en line"
  let ?e = "parsed_expense ?r"
  let ?c = "line \<noteq> [] \<and> \<not> prefix ''/start'' line \<and> \<not> prefix ''/gastos'' line
         \<and> expense_understood ?r
         \<and> \<not> isl (confirmation L ?e)
         \<and> refresh_succeeded (refresh_reply en (stored_token cfg f))"
  have "expense_understood ?r \<and> transactionPayload L en cfg ?e = Inr p"
  proof (cases ?c)
    case False
    then have "posts (run_events en cfg L (Some line) f) = []"
      by (auto simp: run_posts)
    with assms show ?thesis by simp
  next
    case c: True
    show ?thesis
    proof (cases "transactionPayload L en cfg ?e")
      case (Inl a)
      with c have "posts (run_events en cfg L (Some line) f) = []"
        by (auto simp: run_posts)
      with assms show ?thesis by simp
    next
      case (Inr b)
      with c have "posts (run_events en cfg L (Some line) f) = [b]"
        by (auto simp: run_posts)
      with assms have "p = b" by simp
      with c Inr show ?thesis by simp
    qed
  qed
  then show "expense_understood ?r" and "transactionPayload L en cfg ?e = Inr p"
    by simp_all
qed

section \<open>The claims\<close>

text \<open>
  Claim C2. Handling one inbound message makes at most one transaction-creation call. A
  call is made only when the model's answer was understood as an expense and the token
  refresh succeeded; when either failed (the answer could not be parsed, it lacks an amount
  or a description, or the refresh was rejected) no call is made.
\<close>

theorem recorder_submits_at_most_once:
  "length (posts (run_events en cfg L (Some text) f)) \<le> 1
   \<and> (posts (run_events en cfg L (Some text) f) \<noteq> [] \<longrightarrow>
        expense_understood (llm_expense en text)
        \<and> refresh_succeeded (refresh_reply en (stored_token cfg f)))
   \<and> (\<not> expense_understood (llm_expense en text)
        \<or> \<not> refresh_succeeded (refresh_reply en (stored_token cfg f)) \<longrightarrow>
        posts (run_events en cfg L (Some text) f) = [])"
  by (simp add: run_posts split: sum.splits)

text \<open>The scenario of the help text makes exactly one call.\<close>

theorem recorder_submits_at_most_once_witness:
  "posts (run_events example_env example_config example_lib
            (Some ''Cena con amigos 45.50 usd'') Missing) = [example_payload]
   \<and> expense_understood (llm_expense example_env ''Cena con amigos 45.50 usd'')
   \<and> refresh_succeeded (refresh_reply example_env (stored_token example_config Missing))"
proof -
  have p: "posts (run_events example_env example_config example_lib
            (Some ''Cena con amigos 45.50 usd'') Missing) = [example_payload]"
    using dinner_posts[of "write_result example_env"] by simp
  with recorder_submits_at_most_once[of example_env example_config example_lib
      "''Cena con amigos 45.50 usd''" Missing]
  show ?thesis by simp
qed

text \<open>
  Claim C3. Every payload the recorder submits comes from the expense the model returned.
  Its amount is the negated absolute value of what \<open>parseFloat\<close> reads from the amount of
  the expense, hence negative unless that is zero or no number; for an amount that is a
  JSON number it is the negated absolute value of that number, and negative. Its currency
  is the upper-cased currency of the expense, or "USD" when the expense has none, and its
  type is "expense". This holds whatever the runtime's \<open>parseFloat\<close> reads from a string
  and whatever \<open>toUpperCase\<close> makes of characters outside ASCII.
\<close>

theorem submitted_payload_is_normalized:
  assumes "p \<in> set (posts (run_events en cfg L (Some line) f))"
  shows "\<exists>e. llm_expense en line = Ok e
           \<and> (\<exists>v. parseFloat L (jget e ''amount'') = Inr v
                  \<and> p_amount p = neg_num (abs_num v)
                  \<and> (v \<noteq> NaN \<and> v \<noteq> Fin 0 \<longrightarrow> num_negative (p_amount p)))
           \<and> (\<forall>n. jget e ''amount'' = JNum n \<longrightarrow>
                  p_amount p = neg_num (abs_num n) \<and> num_negative (p_amount p))
           \<and> (truthy (jget e ''currency'') \<longrightarrow>
                 (\<exists>s. jget e ''currency'' = JStr s \<and> p_currency p = toUpperCase L s))
           \<and> (\<not> truthy (jget e ''currency'') \<longrightarrow> p_currency p = ''USD'')
           \<and> p_type p = ''expense''"
proof -
  let ?r = "llm_expense en line"
  let ?e = "parsed_expense ?r"
  from assms have u: "expense_understood ?r"
    and pl: "transactionPayload L en cfg ?e = Inr p"
    by (rule posted_payload)+
  from u have ok: "?r = Ok ?e" by (rule understood_parsed)
  from u have am: "truthy (jget ?e ''amount'')"
    using guard_understood[of ?r] by simp
  from payload_fields(1)[OF pl] obtain v
    where v: "parseFloat L (jget ?e ''amount'') = Inr v" "p_amount p = neg_num (abs_num v)"
    by blast
  have neg: "v \<noteq> NaN \<and> v \<noteq> Fin 0 \<longrightarrow> num_negative (p_amount p)"
    using v(2) by (simp add: negated_abs_negative)
  have num: "\<forall>n. jget ?e ''amount'' = JNum n \<longrightarrow>
                 p_amount p = neg_num (abs_num n) \<and> num_negative (p_amount p)"
    using am v by (auto simp: negated_abs_negative)
  have cur: "truthy (jget ?e ''currency'') \<longrightarrow>
                 (\<exists>s. jget ?e ''currency'' = JStr s \<and> p_currency p = toUpperCase L s)"
    using payload_fields(3)[OF pl] by simp
  have dflt: "\<not> truthy (jget ?e ''currency'') \<longrightarrow> p_currency p = ''USD''"
    using payload_fields(4)[OF pl] by simp
  have ty: "p_type p = ''expense''"
    using payload_fields(2)[OF pl] .
  from v(1) v(2) neg have
    "\<exists>v. parseFloat L (jget ?e ''amount'') = Inr v
                  \<and> p_amount p = neg_num (abs_num v)
                  \<and> (v \<noteq> NaN \<and> v \<noteq> Fin 0 \<longrightarrow> num_negative (p_amount p))"
    by (intro exI[of _ v] conjI)
  with ok num cur dflt ty show ?thesis
    by (intro exI[of _ ?e] conjI)
qed

text \<open>
  The purchase in pesos: the amount "50000", a string, is submitted as -50000 and the
  currency "ars" as "ARS".
\<close>

theorem submitted_payload_is_normalized_witness:
  "pesos_payload \<in> set (posts (run_events example_env example_config example_lib
                                 (Some ''Zapatillas por 50000 pesos'') Missing))
   \<and> llm_expense example_env ''Zapatillas por 50000 pesos'' = Ok pesos_expense
   \<and> jget pesos_expense ''amount'' = JStr ''50000''
   \<and> parseFloat example_lib (JStr ''50000'') = Inr (Fin 50000)
   \<and> p_amount pesos_payload = Fin (- 50000)
   \<and> num_negative (p_amount pesos_payload)
   \<and> jget pesos_expense ''currency'' = JStr ''ars''
   \<and> toUpperCase example_lib ''ars'' = ''ARS''
   \<and> p_currency pesos_payload = ''ARS''
   \<and> p_type pesos_payload = ''expense''"
proof -
  have m: "pesos_payload \<in> set (posts (run_events example_env example_config example_lib
                                 (Some ''Zapatillas por 50000 pesos'') Missing))"
    by (simp add: pesos_posts)
  have e: "llm_expense example_env ''Zapatillas por 50000 pesos'' = Ok pesos_expense"
    by (simp add: example_env_def)
  have a: "jget pesos_expense ''amount'' = JStr ''50000''"
    and c: "jget pesos_expense ''currency'' = JStr ''ars''"
    by (simp_all add: pesos_expense_def jget_def)
  have pf: "parseFloat example_lib (JStr ''50000'') = Inr (Fin 50000)"
    by (simp add: example_lib_def)
  from submitted_payload_is_normalized[OF m] e a c pf
  have "p_amount pesos_payload = Fin (- 50000)
        \<and> num_negative (p_amount pesos_payload)
        \<and> p_currency pesos_payload = toUpperCase example_lib ''ars''
        \<and> p_type pesos_payload = ''expense''"
    by auto
  moreover have "toUpperCase example_lib ''ars'' = ''ARS''"
    by (simp add: toUpperCase_def is_ascii_def upper_char_def)
  ultimately show ?thesis using m e a c pf by simp
qed

text \<open>
  Claim C10, as the code has it. For a text that goes to the recorder: whenever the
  model's answer is not a usable expense (the parse failed, or the amount or the
  description is falsy: absent, null, empty, the number 0) the chat gets the "could not
  understand" prompt after the two progress messages and nothing is submitted. So every
  submission comes from an expense whose amount and description are truthy; an amount
  that is a number is then not 0.
\<close>

theorem unusable_expense_is_not_submitted:
  assumes "line \<noteq> []" "\<not> prefix ''/start'' line" "\<not> prefix ''/gastos'' line"
  shows "(\<not> expense_understood (llm_expense en line) \<longrightarrow>
            replies (run_events en cfg L (Some line) f) = [Thinking, AnalysisDone, CouldNotUnderstand]
            \<and> posts (run_events en cfg L (Some line) f) = [])
       \<and> (llm_expense en line = Ok e
            \<and> (\<not> truthy (jget e ''amount'') \<or> \<not> truthy (jget e ''description'')) \<longrightarrow>
            replies (run_events en cfg L (Some line) f) = [Thinking, AnalysisDone, CouldNotUnderstand]
            \<and> posts (run_events en cfg L (Some line) f) = [])
       \<and> (posts (run_events en cfg L (Some line) f) \<noteq> [] \<longrightarrow>
            (\<exists>x. llm_expense en line = Ok x \<and> truthy (jget x ''amount'')
                 \<and> truthy (jget x ''description'')
                 \<and> (\<forall>n. jget x ''amount'' = JNum n \<longrightarrow> n \<noteq> Fin 0 \<and> n \<noteq> NaN)))"
proof -
  have a: "\<not> expense_understood (llm_expense en line) \<Longrightarrow>
            replies (run_events en cfg L (Some line) f) = [Thinking, AnalysisDone, CouldNotUnderstand]
            \<and> posts (run_events en cfg L (Some line) f) = []"
    using assms by (simp add: run_posts) (simp add: run_events_def on_message_not_understood start_def)
  have b: "llm_expense en line = Ok e
            \<and> (\<not> truthy (jget e ''amount'') \<or> \<not> truthy (jget e ''description'')) \<Longrightarrow>
           \<not> expense_understood (llm_expense en line)"
    by (auto simp: expense_understood_def)
  have c: "posts (run_events en cfg L (Some line) f) \<noteq> [] \<Longrightarrow>
            (\<exists>x. llm_expense en line = Ok x \<and> truthy (jget x ''amount'')
                 \<and> truthy (jget x ''description'')
                 \<and> (\<forall>n. jget x ''amount'' = JNum n \<longrightarrow> n \<noteq> Fin 0 \<and> n \<noteq> NaN))"
  proof -
    assume "posts (run_events en cfg L (Some line) f) \<noteq> []"
    then have u: "expense_understood (llm_expense en line)"
      by (simp add: run_posts split: if_splits)
    then obtain x where x: "llm_expense en line = Ok x" "truthy (jget x ''amount'')"
        "truthy (jget x ''description'')"
      by (cases "llm_expense en line") (auto simp: expense_understood_def)
    then have "\<forall>n. jget x ''amount'' = JNum n \<longrightarrow> n \<noteq> Fin 0 \<and> n \<noteq> NaN" by auto
    with x show ?thesis by blast
  qed
  from a b c show ?thesis by blast
qed

text \<open>An answer with amount 0 is answered with the retry prompt.\<close>

theorem unusable_expense_is_not_submitted_witness:
  "''gratis'' \<noteq> [] \<and> \<not> prefix ''/start'' ''gratis'' \<and> \<not> prefix ''/gastos'' ''gratis''
   \<and> llm_expense (example_env\<lparr>llm_expense :=
         (\<lambda>_. Ok (JObj [(''amount'', JNum (Fin 0)), (''description'', JStr ''gratis'')]))\<rparr>)
         ''gratis''
       = Ok (JObj [(''amount'', JNum (Fin 0)), (''description'', JStr ''gratis'')])
   \<and> \<not> truthy (jget (JObj [(''amount'', JNum (Fin 0)), (''description'', JStr ''gratis'')]) ''amount'')
   \<and> replies (run_events (example_env\<lparr>llm_expense :=
         (\<lambda>_. Ok (JObj [(''amount'', JNum (Fin 0)), (''description'', JStr ''gratis'')]))\<rparr>)
         example_config example_lib (Some ''gratis'') Missing)
       = [Thinking, AnalysisDone, CouldNotUnderstand]
   \<and> posts (run_events (example_env\<lparr>llm_expense :=
         (\<lambda>_. Ok (JObj [(''amount'', JNum (Fin 0)), (''description'', JStr ''gratis'')]))\<rparr>)
         example_config example_lib (Some ''gratis'') Missing) = []"
  using unusable_expense_is_not_submitted[where line = "''gratis''"
      and en = "example_env\<lparr>llm_expense :=
         (\<lambda>_. Ok (JObj [(''amount'', JNum (Fin 0)), (''description'', JStr ''gratis'')]))\<rparr>"
      and e = "JObj [(''amount'', JNum (Fin 0)), (''description'', JStr ''gratis'')]"
      and cfg = example_config and L = example_lib and f = Missing]
  by (simp add: jget_def)

text \<open>
  Claim C10 as stated fails on an amount that is the string "0": the string is not empty,
  so it passes the guard of index.js:208, \<open>parseFloat\<close> reads it as 0, and a transaction
  with amount 0 is submitted and acknowledged.
\<close>

theorem zero_string_amount_is_submitted:
  "llm_expense example_env ''Regalo 0'' = Ok zero_expense
   \<and> jget zero_expense ''amount'' = JStr ''0''
   \<and> parseFloat example_lib (jget zero_expense ''amount'') = Inr (Fin 0)
   \<and> posts (run_events example_env example_config example_lib (Some ''Regalo 0'') Missing)
       = [zero_payload]
   \<and> p_amount zero_payload = Fin 0
   \<and> replies (run_events example_env example_config example_lib (Some ''Regalo 0'') Missing)
       = [Thinking, AnalysisDone, Confirm ''Regalo'' ''0'' ''USD'' ''undefined'', Registered]"
proof -
  have pr: "post_reply example_env = PostStatus True"
    by (simp add: example_env_def)
  have rs: "refresh_succeeded (refresh_reply example_env
              (stored_token example_config (token_file (start Missing))))"
    by (rule example_refresh)
  have cf: "confirmation example_lib (parsed_expense (llm_expense example_env ''Regalo 0''))
              = Inr (Confirm ''Regalo'' ''0'' ''USD'' ''undefined'')"
    by (simp add: zero_understood zero_confirmation)
  have tp: "transactionPayload example_lib example_env example_config
              (parsed_expense (llm_expense example_env ''Regalo 0'')) = Inr zero_payload"
    by (simp add: zero_understood zero_payload_eq)
  note r = recordExpense_registered(1)[OF zero_understood(1) cf rs tp pr]
  note ok = recordExpense_registered(2)[OF zero_understood(1) cf rs tp pr]
  have "replies (run_events example_env example_config example_lib (Some ''Regalo 0'') Missing)
       = [Thinking, AnalysisDone, Confirm ''Regalo'' ''0'' ''USD'' ''undefined'', Registered]"
    using r ok by (simp add: run_events_def on_message_def io_run) (simp add: start_def)
  then show ?thesis
    by (simp add: zero_posts)
       (simp add: example_env_def zero_expense_def jget_def example_lib_def zero_payload_def)
qed






text \<open>
  Claim C7. Given no transactions, the narrative summary returns its fixed message and
  does nothing else: the world is unchanged, so no completion is requested.
\<close>

theorem empty_list_short_circuits:
  "analyzeExpensesWithAI en L (JArr []) w
     = (Inr ''No hay transacciones para analizar. Registra algunos gastos primero.'', w)"
  by (simp add: analyzeExpensesWithAI_def js_length_def no_transactions_msg_def ret_def)

text \<open>
  Claim C8. Reading a token file that is missing, unreadable or not JSON returns the seed
  token and raises nothing. A write that fails is logged with \<open>console.error\<close> and
  returns normally, and the refresh block still yields the access token it obtained.
\<close>

theorem token_store_failures_are_absorbed:
  "(token_file w = Missing \<or> token_file w = Unreadable \<or> token_file w = Invalid_json \<longrightarrow>
      fst (readRefreshToken cfg w) = Inr (JStr (seed cfg)))
   \<and> (write_result en = WriteFails f' \<longrightarrow>
        fst (writeRefreshToken en t w) = Inr ()
        \<and> console_errors (trace (snd (writeRefreshToken en t w)))
            = console_errors (trace w) @ [''writeRefreshToken''])
   \<and> (write_result en = WriteFails f'
        \<and> refresh_succeeded (refresh_reply en (stored_token cfg (token_file w))) \<longrightarrow>
        fst (refresh_and_store en cfg msg w)
          = Inr (returned_access (refresh_reply en (stored_token cfg (token_file w)))))"
proof -
  have a: "token_file w = Missing \<or> token_file w = Unreadable \<or> token_file w = Invalid_json
           \<Longrightarrow> fst (readRefreshToken cfg w) = Inr (JStr (seed cfg))"
    by (simp add: stored_token_seed)
  have b: "write_result en = WriteFails f' \<Longrightarrow>
           console_errors (trace (snd (writeRefreshToken en t w)))
            = console_errors (trace w) @ [''writeRefreshToken'']"
    by (simp add: writeRefreshToken_def emit_def)
  from a b show ?thesis
    by (simp add: refresh_and_store_ok)
qed

text \<open>
  A run on a missing token file whose write fails: the seed is read, the failure is
  logged, and the expense is still submitted.
\<close>

theorem token_store_failures_are_absorbed_witness:
  "token_file (start Missing) = Missing
   \<and> fst (readRefreshToken example_config (start Missing)) = Inr (JStr ''refresh-1'')
   \<and> write_result (example_env\<lparr>write_result := WriteFails Missing\<rparr>) = WriteFails Missing
   \<and> fst (writeRefreshToken (example_env\<lparr>write_result := WriteFails Missing\<rparr>)
            (JStr ''refresh-2'') (start Missing)) = Inr ()
   \<and> console_errors (trace (snd (writeRefreshToken
            (example_env\<lparr>write_result := WriteFails Missing\<rparr>)
            (JStr ''refresh-2'') (start Missing)))) = [''writeRefreshToken'']
   \<and> fst (refresh_and_store (example_env\<lparr>write_result := WriteFails Missing\<rparr>)
            example_config ''failure'' (start Missing)) = Inr (JStr ''access-1'')
   \<and> posts (run_events (example_env\<lparr>write_result := WriteFails Missing\<rparr>)
              example_config example_lib (Some ''Cena con amigos 45.50 usd'') Missing)
       = [example_payload]"
proof -
  have r: "refresh_succeeded
             (refresh_reply (example_env\<lparr>write_result := WriteFails Missing\<rparr>)
                (stored_token example_config (token_file (start Missing))))"
    by (simp add: example_refresh)
  note p = dinner_posts[of "WriteFails Missing"]
  from token_store_failures_are_absorbed[where w = "start Missing" and cfg = example_config
      and en = "example_env\<lparr>write_result := WriteFails Missing\<rparr>" and f' = Missing
      and t = "JStr ''refresh-2''" and msg = "''failure''"] r p
  show ?thesis
    by (simp add: start_def example_config_def)
       (simp add: example_env_def returned_access_def jget_def)
qed

subsection \<open>The listing\<close>




















end
